theory Spec2Isabelle
  imports Main "HOL-Library.Sublist" "HOL-Library.Word"
begin

section \<open>Values of the program\<close>

text \<open>
  The bot (\<^verbatim>\<open>telegram-bot.py\<close>) is one class, \<^verbatim>\<open>TelegramBot\<close>, whose handlers
  read an update, call external collaborators (the generative model, the Bot API's file
  lookup and download, the PDF reader, the clock), write to four MongoDB collections and
  reply to the chat. The collaborators are not part of the repository: they are
  parameters of the model (\<open>env\<close>), each call answering with a value or an exception.

  A Python \<^verbatim>\<open>str\<close> is a \<open>string\<close> whose elements stand for its characters, a
  \<^verbatim>\<open>bytearray\<close> is a list of bytes.

  The calls that may raise are those to the generative models, \<^verbatim>\<open>get_file\<close>,
  \<^verbatim>\<open>download_as_bytearray\<close>, the PDF reader and \<^verbatim>\<open>extract_text\<close> of a page, and the
  indexing \<^verbatim>\<open>photo[-1]\<close> and \<^verbatim>\<open>user_data["chat_id"]\<close>. The writes to the database,
  \<^verbatim>\<open>reply_text\<close> and \<^verbatim>\<open>send_action\<close> are taken to succeed, and a handler runs from
  its first line to its last without interleaving. The log is not part of the state.
\<close>

type_synonym bytes = "8 word list"

text \<open>Exceptions, by the call that raised them.\<close>

datatype exn =
    IndexError
  | KeyError
  | TelegramError
  | InferenceError
  | PdfError

text \<open>
  What \<^verbatim>\<open>generate_content\<close> returns is tested for truthiness and then read through
  its \<^verbatim>\<open>.text\<close> attribute. \<open>None\<close> is Python's \<^verbatim>\<open>None\<close> (falsy); a response
  object is truthy whatever its text is.
\<close>

datatype response = Response (text_attr: string)

text \<open>Field values of the stored documents, and documents as Python dicts.\<close>

datatype val = VInt int | VStr string | VNone | VDate nat

type_synonym doc = "string \<rightharpoonup> val"

definition opt_str :: "string option \<Rightarrow> val" where
  "opt_str x = (case x of None \<Rightarrow> VNone | Some t \<Rightarrow> VStr t)"

subsection \<open>The update and the callback context\<close>

record tg_user =
  first_name :: string
  username :: "string option"

record tg_document =
  file_id :: string
  file_name :: string

text \<open>
  The fields of \<^verbatim>\<open>update\<close> that the handlers read. \<open>message_photo\<close> is the list of
  file ids of \<^verbatim>\<open>update.message.photo\<close>, in ascending resolution.
\<close>

record update =
  effective_user :: tg_user
  effective_chat_id :: int
  message_text :: string
  contact_phone_number :: string
  message_photo :: "string list"
  message_document :: tg_document

record callback_context =
  args :: "string list"

subsection \<open>Collaborators\<close>

text \<open>
  A file handle returned by \<^verbatim>\<open>context.bot.get_file\<close>: its path, and what
  \<^verbatim>\<open>download_as_bytearray\<close> answers.
\<close>

record tg_file =
  file_path :: string
  download_as_bytearray :: "exn + bytes"

text \<open>
  A page of a parsed PDF is what \<^verbatim>\<open>page.extract_text()\<close> answers: an exception, or
  a string, or \<^verbatim>\<open>None\<close>.
\<close>

type_synonym pdf_page = "exn + string option"

record env =
  generate_content :: "string \<Rightarrow> exn + response option"
  vision_generate_content :: "bytes \<Rightarrow> exn + response option"
  get_file :: "string \<Rightarrow> exn + tg_file"
  PdfReader :: "bytes \<Rightarrow> exn + pdf_page list"
  utcnow :: nat

subsection \<open>State\<close>

text \<open>
  The four collections of the database \<^verbatim>\<open>telegram_bot\<close>, the messages and chat
  actions sent to the chat, and the calls made to the generative models and to the
  PDF extraction, in order.
\<close>

datatype button = KeyboardButton string bool

datatype markup = ReplyKeyboardMarkup "button list list" bool

record sent_message =
  body :: string
  reply_markup :: "markup option"

datatype prompt = TextPrompt string | ImagePrompt bytes

record state =
  users :: "doc list"
  chat_history :: "doc list"
  image_analysis :: "doc list"
  document_analysis :: "doc list"
  replies :: "sent_message list"
  chat_actions :: "string list"
  inference_calls :: "prompt list"
  extraction_calls :: "bytes list"

type_synonym 'a result = "(exn + 'a) \<times> state"

section \<open>String operations\<close>

text \<open>\<^verbatim>\<open>str.lower\<close> on characters below 256 and \<^verbatim>\<open>str.endswith\<close>.\<close>

definition lower_char :: "char \<Rightarrow> char" where
  "lower_char c =
     (let n = (of_char c :: nat)
      in if (65 \<le> n \<and> n \<le> 90) \<or> (192 \<le> n \<and> n \<le> 222 \<and> n \<noteq> 215)
         then char_of (n + 32) else c)"

definition lower :: "string \<Rightarrow> string" where
  "lower s = map lower_char s"

definition endswith :: "string \<Rightarrow> string \<Rightarrow> bool" where
  "endswith s suf \<longleftrightarrow>
     length suf \<le> length s \<and> drop (length s - length suf) s = suf"

text \<open>\<^verbatim>\<open>sep.join(xs)\<close>.\<close>

fun join :: "string \<Rightarrow> string list \<Rightarrow> string" where
  "join sep [] = []"
| "join sep [x] = x"
| "join sep (x # y # ys) = x @ sep @ join sep (y # ys)"

section \<open>The persistence calls\<close>

text \<open>
  \<^verbatim>\<open>collection.insert_one(d)\<close> appends the document.
  \<^verbatim>\<open>collection.update_one({k: v}, {"$set": fields}, upsert=True)\<close> sets the fields
  in the first document whose field \<open>k\<close> equals \<open>v\<close>; when there is none it inserts
  the document made of the filter's field and the fields set.
\<close>

definition insert_one :: "doc \<Rightarrow> doc list \<Rightarrow> doc list" where
  "insert_one d coll = coll @ [d]"

fun update_one_upsert :: "string \<Rightarrow> val \<Rightarrow> doc \<Rightarrow> doc list \<Rightarrow> doc list" where
  "update_one_upsert k v flds [] = [[k \<mapsto> v] ++ flds]"
| "update_one_upsert k v flds (d # ds) =
     (if d k = Some v then (d ++ flds) # ds
      else d # update_one_upsert k v flds ds)"

definition save_user :: "doc \<Rightarrow> state \<Rightarrow> unit result" where
  "save_user user_data s =
     (case user_data ''chat_id'' of
        None \<Rightarrow> (Inl KeyError, s)
      | Some c \<Rightarrow>
          (Inr (), s\<lparr>users := update_one_upsert ''chat_id'' c user_data (users s)\<rparr>))"

definition save_chat_history :: "env \<Rightarrow> doc \<Rightarrow> state \<Rightarrow> state" where
  "save_chat_history e chat_data s =
     s\<lparr>chat_history := insert_one (chat_data(''timestamp'' \<mapsto> VDate (utcnow e))) (chat_history s)\<rparr>"

section \<open>The transport calls\<close>

definition reply_text :: "string \<Rightarrow> markup option \<Rightarrow> state \<Rightarrow> state" where
  "reply_text t m s = s\<lparr>replies := replies s @ [\<lparr>body = t, reply_markup = m\<rparr>]\<rparr>"

definition send_action :: "string \<Rightarrow> state \<Rightarrow> state" where
  "send_action a s = s\<lparr>chat_actions := chat_actions s @ [a]\<rparr>"

section \<open>The inference calls\<close>

definition call_model :: "env \<Rightarrow> string \<Rightarrow> state \<Rightarrow> response option result" where
  "call_model e p s =
     (generate_content e p, s\<lparr>inference_calls := inference_calls s @ [TextPrompt p]\<rparr>)"

definition call_vision_model :: "env \<Rightarrow> bytes \<Rightarrow> state \<Rightarrow> response option result" where
  "call_vision_model e b s =
     (vision_generate_content e b, s\<lparr>inference_calls := inference_calls s @ [ImagePrompt b]\<rparr>)"

text \<open>\<^verbatim>\<open>response.text if response else fallback\<close>.\<close>

definition text_or :: "response option \<Rightarrow> string \<Rightarrow> string" where
  "text_or response fallback =
     (case response of Some r \<Rightarrow> text_attr r | None \<Rightarrow> fallback)"

section \<open>The handlers\<close>

definition contact_keyboard :: markup where
  "contact_keyboard =
     ReplyKeyboardMarkup [[KeyboardButton ''Share Contact'' True]] True"

definition start :: "env \<Rightarrow> update \<Rightarrow> callback_context \<Rightarrow> state \<Rightarrow> unit result" where
  "start e upd ctx s =
     (let user = effective_user upd;
          chat_id = effective_chat_id upd
      in case save_user [''chat_id'' \<mapsto> VInt chat_id,
                         ''first_name'' \<mapsto> VStr (first_name user),
                         ''username'' \<mapsto> opt_str (username user)] s of
           (Inl x, s1) \<Rightarrow> (Inl x, s1)
         | (Inr _, s1) \<Rightarrow>
             (Inr (),
              reply_text ''Hello! Please share your contact to complete registration.''
                (Some contact_keyboard) s1))"

definition handle_contact :: "env \<Rightarrow> update \<Rightarrow> callback_context \<Rightarrow> state \<Rightarrow> unit result" where
  "handle_contact e upd ctx s =
     (let chat_id = effective_chat_id upd
      in case save_user [''chat_id'' \<mapsto> VInt chat_id,
                         ''phone_number'' \<mapsto> VStr (contact_phone_number upd)] s of
           (Inl x, s1) \<Rightarrow> (Inl x, s1)
         | (Inr _, s1) \<Rightarrow>
             (Inr (), reply_text ''Thanks for sharing your contact!'' None s1))"

definition handle_message :: "env \<Rightarrow> update \<Rightarrow> callback_context \<Rightarrow> state \<Rightarrow> unit result" where
  "handle_message e upd ctx s =
     (let message = message_text upd;
          chat_id = effective_chat_id upd;
          s1 = send_action ''typing'' s
      in case call_model e message s1 of
           (Inl x, s2) \<Rightarrow> (Inl x, s2)
         | (Inr response, s2) \<Rightarrow>
             (let response_text = text_or response ''I couldn't process that.'';
                  s3 = save_chat_history e
                         [''chat_id'' \<mapsto> VInt chat_id,
                          ''user_message'' \<mapsto> VStr message,
                          ''bot_response'' \<mapsto> VStr response_text] s2
              in (Inr (), reply_text (take 4096 response_text) None s3)))"

text \<open>
  The body of the \<^verbatim>\<open>try\<close> of \<^verbatim>\<open>handle_photo\<close>: download, vision call, insert,
  reply. An exception leaves it with the state reached so far.
\<close>

definition handle_photo_try :: "env \<Rightarrow> int \<Rightarrow> tg_file \<Rightarrow> state \<Rightarrow> unit result" where
  "handle_photo_try e chat_id file s =
     (case download_as_bytearray file of
        Inl x \<Rightarrow> (Inl x, s)
      | Inr image_bytes \<Rightarrow>
          (case call_vision_model e image_bytes s of
             (Inl x, s1) \<Rightarrow> (Inl x, s1)
           | (Inr response, s1) \<Rightarrow>
               (let analysis = text_or response ''Could not analyze the image.'';
                    s2 = s1\<lparr>image_analysis :=
                           insert_one [''chat_id'' \<mapsto> VInt chat_id,
                                       ''image_url'' \<mapsto> VStr (file_path file),
                                       ''description'' \<mapsto> VStr analysis,
                                       ''timestamp'' \<mapsto> VDate (utcnow e)]
                             (image_analysis s1)\<rparr>
                in (Inr (), reply_text (take 4096 analysis) None s2))))"

definition handle_photo :: "env \<Rightarrow> update \<Rightarrow> callback_context \<Rightarrow> state \<Rightarrow> unit result" where
  "handle_photo e upd ctx s =
     (let chat_id = effective_chat_id upd
      in if message_photo upd = [] then (Inl IndexError, s)
         else
           (let photo = last (message_photo upd)
            in case get_file e photo of
                 Inl x \<Rightarrow> (Inl x, s)
               | Inr file \<Rightarrow>
                   (let s1 = send_action ''typing'' s
                    in case handle_photo_try e chat_id file s1 of
                         (Inr u, s2) \<Rightarrow> (Inr u, s2)
                       | (Inl x, s2) \<Rightarrow>
                           (Inr (),
                            reply_text
                              ''There was an error analyzing the image. Please try again later.''
                              None s2))))"

subsection \<open>PDF text extraction\<close>

text \<open>
  The loop of \<^verbatim>\<open>extract_text_from_pdf\<close> over the pages, with the accumulator
  \<^verbatim>\<open>text\<close>: \<^verbatim>\<open>text += page.extract_text() or ""\<close>. An exception leaves the loop
  with the text accumulated so far.
\<close>

definition or_empty :: "string option \<Rightarrow> string" where
  "or_empty t = (case t of None \<Rightarrow> [] | Some u \<Rightarrow> u)"

fun extract_pages :: "pdf_page list \<Rightarrow> string \<Rightarrow> (exn + unit) \<times> string" where
  "extract_pages [] text = (Inr (), text)"
| "extract_pages (page # pages) text =
     (case page of
        Inl x \<Rightarrow> (Inl x, text)
      | Inr t \<Rightarrow> extract_pages pages (text @ or_empty t))"

text \<open>
  The \<^verbatim>\<open>try\<close> covers the reader and the loop; \<^verbatim>\<open>except Exception\<close> logs and
  falls through to \<^verbatim>\<open>return text\<close>.
\<close>

definition extract_text_from_pdf :: "env \<Rightarrow> bytes \<Rightarrow> exn + string" where
  "extract_text_from_pdf e pdf_bytes =
     (let text = []
      in case (case PdfReader e pdf_bytes of
                 Inl x \<Rightarrow> (Inl x, text)
               | Inr pages \<Rightarrow> extract_pages pages text) of
           (Inl x, text1) \<Rightarrow> Inr text1
         | (Inr u, text1) \<Rightarrow> Inr text1)"

definition call_extract_text_from_pdf :: "env \<Rightarrow> bytes \<Rightarrow> state \<Rightarrow> string result" where
  "call_extract_text_from_pdf e b s =
     (extract_text_from_pdf e b, s\<lparr>extraction_calls := extraction_calls s @ [b]\<rparr>)"

subsection \<open>Documents and web search\<close>

text \<open>Lines 132 to 145 of \<^verbatim>\<open>handle_document\<close>: the text \<^verbatim>\<open>analysis\<close>.\<close>

definition document_analysis_text :: "env \<Rightarrow> tg_file \<Rightarrow> string \<Rightarrow> state \<Rightarrow> string result" where
  "document_analysis_text e file fname s =
     (if endswith (lower fname) ''.pdf'' then
        (case download_as_bytearray file of
           Inl x \<Rightarrow> (Inl x, s)
         | Inr file_bytes \<Rightarrow>
             (case call_extract_text_from_pdf e file_bytes s of
                (Inl x, s1) \<Rightarrow> (Inl x, s1)
              | (Inr text, s1) \<Rightarrow>
                  (if text \<noteq> [] then
                     (case call_model e text s1 of
                        (Inl x, s2) \<Rightarrow> (Inl x, s2)
                      | (Inr response, s2) \<Rightarrow>
                          (Inr (text_or response ''Could not summarize the document.''), s2))
                   else (Inr ''No readable text found in the PDF.'', s1))))
      else (Inr ''Unsupported document type.'', s))"

definition handle_document :: "env \<Rightarrow> update \<Rightarrow> callback_context \<Rightarrow> state \<Rightarrow> unit result" where
  "handle_document e upd ctx s =
     (let chat_id = effective_chat_id upd;
          document = message_document upd
      in case get_file e (file_id document) of
           Inl x \<Rightarrow> (Inl x, s)
         | Inr file \<Rightarrow>
             (let s1 = send_action ''typing'' s
              in case document_analysis_text e file (file_name document) s1 of
                   (Inl x, s2) \<Rightarrow> (Inl x, s2)
                 | (Inr analysis, s2) \<Rightarrow>
                     (let s3 = s2\<lparr>document_analysis :=
                                 insert_one [''chat_id'' \<mapsto> VInt chat_id,
                                             ''document_url'' \<mapsto> VStr (file_path file),
                                             ''description'' \<mapsto> VStr analysis,
                                             ''timestamp'' \<mapsto> VDate (utcnow e)]
                                   (document_analysis s2)\<rparr>
                      in (Inr (), reply_text (take 4096 analysis) None s3))))"

definition web_search :: "env \<Rightarrow> update \<Rightarrow> callback_context \<Rightarrow> state \<Rightarrow> unit result" where
  "web_search e upd ctx s =
     (if args ctx = [] then
        (Inr (), reply_text ''Please provide a search query after /websearch'' None s)
      else
        (let query = join '' '' (args ctx);
             s1 = send_action ''typing'' s;
             prompt = ''Search the web for: '' @ query @ '' and summarize the top results.''
         in case call_model e prompt s1 of
              (Inl x, s2) \<Rightarrow> (Inl x, s2)
            | (Inr response, s2) \<Rightarrow>
                (Inr (),
                 reply_text (take 4096 (text_or response ''No search results found.'')) None s2)))"

section \<open>Observations on a run\<close>

text \<open>The stored profiles of a chat, and the messages a handler added to the chat.\<close>

definition profiles_of :: "int \<Rightarrow> state \<Rightarrow> doc list" where
  "profiles_of c s = filter (\<lambda>d. d ''chat_id'' = Some (VInt c)) (users s)"

definition new_replies :: "state \<Rightarrow> state \<Rightarrow> sent_message list" where
  "new_replies s s1 = drop (length (replies s)) (replies s1)"

subsection \<open>Concrete collaborators and inputs\<close>

text \<open>
  Collaborators that give the same answer to every call, the empty database, and one
  update from chat 123.
\<close>

definition const_env ::
  "(exn + response option) \<Rightarrow> (exn + response option) \<Rightarrow> (exn + tg_file) \<Rightarrow>
   (exn + pdf_page list) \<Rightarrow> env" where
  "const_env g v f p =
     \<lparr>generate_content = (\<lambda>_. g), vision_generate_content = (\<lambda>_. v),
      get_file = (\<lambda>_. f), PdfReader = (\<lambda>_. p), utcnow = 0\<rparr>"

definition initial_state :: state where
  "initial_state =
     \<lparr>users = [], chat_history = [], image_analysis = [], document_analysis = [],
      replies = [], chat_actions = [], inference_calls = [], extraction_calls = []\<rparr>"

definition example_file :: tg_file where
  "example_file = \<lparr>file_path = ''documents/file_1'', download_as_bytearray = Inr [37, 80]\<rparr>"

definition example_update :: update where
  "example_update =
     \<lparr>effective_user = \<lparr>first_name = ''Ann'', username = Some ''ann''\<rparr>,
      effective_chat_id = 123,
      message_text = ''Hello'',
      contact_phone_number = ''+100'',
      message_photo = [''small'', ''large''],
      message_document = \<lparr>file_id = ''doc1'', file_name = ''notes.txt''\<rparr>\<rparr>"

definition pdf_update :: update where
  "pdf_update =
     example_update\<lparr>message_document := \<lparr>file_id = ''doc2'', file_name = ''report.pdf''\<rparr>\<rparr>"

text \<open>
  Collaborators whose models answer \<^verbatim>\<open>None\<close>, whose models answer with an empty text,
  and whose models and download raise. Their PDF reader finds one page of text.
\<close>

definition absent_env :: env where
  "absent_env =
     const_env (Inr None) (Inr None) (Inr example_file) (Inr [Inr (Some ''page one'')])"

definition empty_text_env :: env where
  "empty_text_env =
     const_env (Inr (Some (Response []))) (Inr (Some (Response []))) (Inr example_file)
       (Inr [Inr (Some ''page one'')])"

definition failing_env :: env where
  "failing_env =
     const_env (Inl InferenceError) (Inl InferenceError)
       (Inr \<lparr>file_path = ''documents/file_1'', download_as_bytearray = Inl TelegramError\<rparr>)
       (Inr [Inr (Some ''page one'')])"

text \<open>
  Collaborators whose models raise while file lookup and download succeed, and
  collaborators whose file lookup raises.
\<close>

definition vision_failing_env :: env where
  "vision_failing_env =
     const_env (Inl InferenceError) (Inl InferenceError) (Inr example_file)
       (Inr [Inr (Some ''page one'')])"

definition lookup_failing_env :: env where
  "lookup_failing_env =
     const_env (Inr None) (Inr None) (Inl TelegramError) (Inr [Inr (Some ''page one'')])"

text \<open>A model whose answer has 5000 characters, and a store holding one profile.\<close>

definition long_answer_env :: env where
  "long_answer_env =
     const_env (Inr (Some (Response (replicate 5000 CHR ''a''))))
       (Inr (Some (Response (replicate 5000 CHR ''a'')))) (Inr example_file)
       (Inr [Inr (Some ''page one'')])"

definition ann_state :: state where
  "ann_state =
     initial_state\<lparr>users := [[''chat_id'' \<mapsto> VInt 123, ''first_name'' \<mapsto> VStr ''Ann'',
                               ''username'' \<mapsto> VStr ''ann'']]\<rparr>"

section \<open>PDF text extraction\<close>

lemma extract_pages_raise:
  "extract_pages (map Inr pre @ Inl x # rest) acc = (Inl x, acc @ concat (map or_empty pre))"
  by (induction pre arbitrary: acc) simp_all

lemma extract_pages_ok:
  "extract_pages (map Inr ts) acc = (Inr (), acc @ concat (map or_empty ts))"
  by (induction ts arbitrary: acc) simp_all

lemma extract_pages_none:
  "extract_pages (map Inr pre @ Inr None # map Inr post) acc =
     (Inr (), acc @ concat (map or_empty pre) @ concat (map or_empty post))"
  by (induction pre arbitrary: acc) (simp_all add: extract_pages_ok or_empty_def)

text \<open>
  C9. \<^verbatim>\<open>extract_text_from_pdf\<close> never raises: for every input it returns a string.
  When the pages before page \<open>k\<close> (the list \<open>pre\<close>) are read and the extraction of
  page \<open>k\<close> raises, it returns the concatenation of the texts of the pages before
  \<open>k\<close>, whatever the pages after \<open>k\<close> (the list \<open>rest\<close>) are; when the reader itself
  raises it returns the empty string.
\<close>

theorem extract_text_from_pdf_total:
  "(\<exists>t. extract_text_from_pdf e b = Inr t) \<and>
   (PdfReader e b = Inr (map Inr pre @ Inl x # rest) \<longrightarrow>
      extract_text_from_pdf e b = Inr (concat (map or_empty pre))) \<and>
   (PdfReader e b = Inl x \<longrightarrow> extract_text_from_pdf e b = Inr [])"
  by (simp add: extract_text_from_pdf_def extract_pages_raise split: sum.splits prod.splits)

theorem extract_text_from_pdf_total_witness:
  "PdfReader (const_env (Inr None) (Inr None) (Inl TelegramError)
       (Inr [Inr (Some ''ab''), Inr None, Inl PdfError, Inr (Some ''zz'')])) [37, 80]
     = Inr (map Inr [Some ''ab'', None] @ Inl PdfError # [Inr (Some ''zz'')]) \<and>
   extract_text_from_pdf (const_env (Inr None) (Inr None) (Inl TelegramError)
       (Inr [Inr (Some ''ab''), Inr None, Inl PdfError, Inr (Some ''zz'')])) [37, 80]
     = Inr ''ab'' \<and>
   PdfReader (const_env (Inr None) (Inr None) (Inl TelegramError) (Inl PdfError)) [37, 80]
     = Inl PdfError \<and>
   extract_text_from_pdf (const_env (Inr None) (Inr None) (Inl TelegramError) (Inl PdfError))
       [37, 80] = Inr []"
  using extract_text_from_pdf_total
    [of "const_env (Inr None) (Inr None) (Inl TelegramError)
           (Inr [Inr (Some ''ab''), Inr None, Inl PdfError, Inr (Some ''zz'')])"
        "[37, 80]" "[Some ''ab'', None]" PdfError "[Inr (Some ''zz'')]"]
    extract_text_from_pdf_total
    [of "const_env (Inr None) (Inr None) (Inl TelegramError) (Inl PdfError)"
        "[37, 80]" "[]" PdfError "[]"]
  by (simp add: const_env_def or_empty_def)

text \<open>
  C3, as the code has it. In a document whose only failing page is page \<open>k\<close>, with
  the pages \<open>pre\<close> before it and the pages \<open>post\<close> after it: when the extraction of
  page \<open>k\<close> raises, the extracted text is the concatenation of the texts of the pages
  before \<open>k\<close> only, and it is non-empty exactly when one of those pages has text; when
  page \<open>k\<close> yields no text (\<^verbatim>\<open>None\<close>), the extracted text is the concatenation, in
  order, of the texts of the other pages.
\<close>

theorem extract_text_one_failing_page:
  "(PdfReader e b = Inr (map Inr pre @ Inl x # map Inr post) \<longrightarrow>
      extract_text_from_pdf e b = Inr (concat (map or_empty pre)) \<and>
      (concat (map or_empty pre) \<noteq> [] \<longleftrightarrow> (\<exists>t \<in> set pre. or_empty t \<noteq> []))) \<and>
   (PdfReader e b = Inr (map Inr pre @ Inr None # map Inr post) \<longrightarrow>
      extract_text_from_pdf e b = Inr (concat (map or_empty pre) @ concat (map or_empty post)))"
  by (simp add: extract_text_from_pdf_def extract_pages_raise extract_pages_none)

theorem extract_text_one_failing_page_witness:
  "PdfReader (const_env (Inr None) (Inr None) (Inl TelegramError)
       (Inr [Inr (Some ''a''), Inl PdfError, Inr (Some ''c'')])) [37, 80]
     = Inr (map Inr [Some ''a''] @ Inl PdfError # map Inr [Some ''c'']) \<and>
   extract_text_from_pdf (const_env (Inr None) (Inr None) (Inl TelegramError)
       (Inr [Inr (Some ''a''), Inl PdfError, Inr (Some ''c'')])) [37, 80] = Inr ''a'' \<and>
   PdfReader (const_env (Inr None) (Inr None) (Inl TelegramError)
       (Inr [Inr (Some ''a''), Inr None, Inr (Some ''c'')])) [37, 80]
     = Inr (map Inr [Some ''a''] @ Inr None # map Inr [Some ''c'']) \<and>
   extract_text_from_pdf (const_env (Inr None) (Inr None) (Inl TelegramError)
       (Inr [Inr (Some ''a''), Inr None, Inr (Some ''c'')])) [37, 80] = Inr ''ac''"
  using extract_text_one_failing_page
    [of "const_env (Inr None) (Inr None) (Inl TelegramError)
           (Inr [Inr (Some ''a''), Inl PdfError, Inr (Some ''c'')])"
        "[37, 80]" "[Some ''a'']" PdfError "[Some ''c'']"]
    extract_text_one_failing_page
    [of "const_env (Inr None) (Inr None) (Inl TelegramError)
           (Inr [Inr (Some ''a''), Inr None, Inr (Some ''c'')])"
        "[37, 80]" "[Some ''a'']" PdfError "[Some ''c'']"]
  by (simp add: const_env_def or_empty_def)

text \<open>
  Against C3 as written: in a three-page document whose second page raises, the text of
  the other two pages is \<open>''ac''\<close>, and the extracted text is \<open>''a''\<close>.
\<close>

theorem failing_page_counterexample:
  "extract_text_from_pdf (const_env (Inr None) (Inr None) (Inl TelegramError)
       (Inr [Inr (Some ''a''), Inl PdfError, Inr (Some ''c'')])) [37, 80] = Inr ''a'' \<and>
   concat (map or_empty [Some ''a'', Some ''c'']) = ''ac'' \<and>
   Inr ''a'' \<noteq> (Inr ''ac'' :: exn + string)"
  by (simp add: extract_text_from_pdf_def const_env_def or_empty_def)

section \<open>The handlers' effects\<close>

lemmas handler_defs =
  call_model_def call_vision_model_def call_extract_text_from_pdf_def send_action_def
  save_chat_history_def reply_text_def insert_one_def Let_def

lemmas run_defs =
  handle_message_def handle_photo_def handle_photo_try_def
  handle_document_def document_analysis_text_def extract_text_from_pdf_def web_search_def
  start_def handle_contact_def save_user_def
  handler_defs text_or_def or_empty_def endswith_def lower_def lower_char_def
  new_replies_def profiles_of_def opt_str_def

lemmas example_defs =
  const_env_def initial_state_def example_file_def example_update_def pdf_update_def
  absent_env_def empty_text_env_def failing_env_def long_answer_env_def ann_state_def
  vision_failing_env_def lookup_failing_env_def

text \<open>Lines 132 to 145 of \<^verbatim>\<open>handle_document\<close> write to no collection and send nothing.\<close>

lemma document_analysis_text_frame:
  "document_analysis_text e f n s = (r, s1) \<Longrightarrow>
     users s1 = users s \<and> chat_history s1 = chat_history s \<and>
     image_analysis s1 = image_analysis s \<and> document_analysis s1 = document_analysis s \<and>
     replies s1 = replies s \<and> chat_actions s1 = chat_actions s"
  by (auto simp add: document_analysis_text_def handler_defs
        split: if_splits sum.splits prod.splits)




section \<open>Replies\<close>

lemma new_replies_message:
  "\<forall>m \<in> set (new_replies s (snd (handle_message e upd ctx s))). length (body m) \<le> 4096"
  by (simp add: new_replies_def handle_message_def handler_defs split: sum.splits)

lemma new_replies_photo:
  "\<forall>m \<in> set (new_replies s (snd (handle_photo e upd ctx s))). length (body m) \<le> 4096"
  by (simp add: new_replies_def handle_photo_def handle_photo_try_def handler_defs split: sum.splits)

lemma new_replies_document:
  "\<forall>m \<in> set (new_replies s (snd (handle_document e upd ctx s))). length (body m) \<le> 4096"
  by (auto simp add: new_replies_def handle_document_def handler_defs
        split: sum.splits prod.splits dest!: document_analysis_text_frame)

lemma new_replies_web_search:
  "\<forall>m \<in> set (new_replies s (snd (web_search e upd ctx s))). length (body m) \<le> 4096"
  by (simp add: new_replies_def web_search_def handler_defs split: sum.splits)

lemma new_replies_start:
  "\<forall>m \<in> set (new_replies s (snd (start e upd ctx s))). length (body m) \<le> 4096"
  by (simp add: new_replies_def start_def save_user_def handler_defs split: sum.splits)

lemma new_replies_contact:
  "\<forall>m \<in> set (new_replies s (snd (handle_contact e upd ctx s))). length (body m) \<le> 4096"
  by (simp add: new_replies_def handle_contact_def save_user_def handler_defs split: sum.splits)

text \<open>
  C4. Every message that a handler sends has at most 4096 characters. When the model's
  answer is present with text \<open>out\<close>, of any length, the handler (text message, photo,
  document, web search) sends exactly one message, whose text is the first 4096
  characters of \<open>out\<close>: it has at most 4096 characters and is a prefix of \<open>out\<close>.
\<close>

theorem reply_bounded_prefix:
  "(\<forall>h \<in> {start, handle_contact, handle_message, handle_photo, handle_document, web_search}.
      \<forall>m \<in> set (new_replies s (snd (h e upd ctx s))). length (body m) \<le> 4096) \<and>
   (generate_content e (message_text upd) = Inr (Some (Response out)) \<longrightarrow>
      (\<exists>m. new_replies s (snd (handle_message e upd ctx s)) = [m] \<and>
           body m = take 4096 out \<and> length (body m) \<le> 4096 \<and> prefix (body m) out)) \<and>
   (message_photo upd \<noteq> [] \<and> get_file e (last (message_photo upd)) = Inr f \<and>
    download_as_bytearray f = Inr img \<and>
    vision_generate_content e img = Inr (Some (Response out)) \<longrightarrow>
      (\<exists>m. new_replies s (snd (handle_photo e upd ctx s)) = [m] \<and>
           body m = take 4096 out \<and> length (body m) \<le> 4096 \<and> prefix (body m) out)) \<and>
   (get_file e (file_id (message_document upd)) = Inr f \<and>
    endswith (lower (file_name (message_document upd))) ''.pdf'' \<and>
    download_as_bytearray f = Inr pdf \<and> extract_text_from_pdf e pdf = Inr t \<and> t \<noteq> [] \<and>
    generate_content e t = Inr (Some (Response out)) \<longrightarrow>
      (\<exists>m. new_replies s (snd (handle_document e upd ctx s)) = [m] \<and>
           body m = take 4096 out \<and> length (body m) \<le> 4096 \<and> prefix (body m) out)) \<and>
   (args ctx \<noteq> [] \<and>
    generate_content e (''Search the web for: '' @ join '' '' (args ctx) @
                        '' and summarize the top results.'') = Inr (Some (Response out)) \<longrightarrow>
      (\<exists>m. new_replies s (snd (web_search e upd ctx s)) = [m] \<and>
           body m = take 4096 out \<and> length (body m) \<le> 4096 \<and> prefix (body m) out))"
proof (intro conjI impI)
  show "\<forall>h \<in> {start, handle_contact, handle_message, handle_photo, handle_document, web_search}.
      \<forall>m \<in> set (new_replies s (snd (h e upd ctx s))). length (body m) \<le> 4096"
    by (simp add: new_replies_message new_replies_photo new_replies_document
          new_replies_web_search new_replies_start new_replies_contact)
next
  assume "generate_content e (message_text upd) = Inr (Some (Response out))"
  then show "\<exists>m. new_replies s (snd (handle_message e upd ctx s)) = [m] \<and>
           body m = take 4096 out \<and> length (body m) \<le> 4096 \<and> prefix (body m) out"
    by (simp add: new_replies_def handle_message_def handler_defs text_or_def take_is_prefix)
next
  assume "message_photo upd \<noteq> [] \<and> get_file e (last (message_photo upd)) = Inr f \<and>
    download_as_bytearray f = Inr img \<and>
    vision_generate_content e img = Inr (Some (Response out))"
  then show "\<exists>m. new_replies s (snd (handle_photo e upd ctx s)) = [m] \<and>
           body m = take 4096 out \<and> length (body m) \<le> 4096 \<and> prefix (body m) out"
    by (simp add: new_replies_def handle_photo_def handle_photo_try_def handler_defs text_or_def
          take_is_prefix)
next
  assume "get_file e (file_id (message_document upd)) = Inr f \<and>
    endswith (lower (file_name (message_document upd))) ''.pdf'' \<and>
    download_as_bytearray f = Inr pdf \<and> extract_text_from_pdf e pdf = Inr t \<and> t \<noteq> [] \<and>
    generate_content e t = Inr (Some (Response out))"
  then show "\<exists>m. new_replies s (snd (handle_document e upd ctx s)) = [m] \<and>
           body m = take 4096 out \<and> length (body m) \<le> 4096 \<and> prefix (body m) out"
    by (simp add: new_replies_def handle_document_def document_analysis_text_def handler_defs
          text_or_def take_is_prefix)
next
  assume "args ctx \<noteq> [] \<and>
    generate_content e (''Search the web for: '' @ join '' '' (args ctx) @
                        '' and summarize the top results.'') = Inr (Some (Response out))"
  then show "\<exists>m. new_replies s (snd (web_search e upd ctx s)) = [m] \<and>
           body m = take 4096 out \<and> length (body m) \<le> 4096 \<and> prefix (body m) out"
    by (simp add: new_replies_def web_search_def handler_defs text_or_def take_is_prefix)
qed

theorem reply_bounded_prefix_witness:
  "handle_message \<in> {start, handle_contact, handle_message, handle_photo, handle_document, web_search} \<and>
   \<lparr>body = replicate 4096 CHR ''a'', reply_markup = None\<rparr>
     \<in> set (new_replies initial_state
              (snd (handle_message long_answer_env example_update \<lparr>args = [''cats'']\<rparr> initial_state))) \<and>
   length (body \<lparr>body = replicate 4096 CHR ''a'', reply_markup = None\<rparr>) \<le> 4096 \<and>
   generate_content long_answer_env (message_text example_update)
     = Inr (Some (Response (replicate 5000 CHR ''a''))) \<and>
   (\<exists>m. new_replies initial_state
          (snd (handle_message long_answer_env example_update \<lparr>args = [''cats'']\<rparr> initial_state)) = [m] \<and>
        length (body m) \<le> 4096 \<and> prefix (body m) (replicate 5000 CHR ''a''))"
  using reply_bounded_prefix
    [where e = long_answer_env and upd = example_update and ctx = "\<lparr>args = [''cats'']\<rparr>"
       and s = initial_state and out = "replicate 5000 CHR ''a''"]
  by (simp add: example_defs handle_message_def handler_defs text_or_def
        new_replies_def)

section \<open>Documents that are not PDF files\<close>

text \<open>
  C5, as the code has it. The only supported document type is a file name ending in \<^verbatim>\<open>.pdf\<close>, in any
  case. For a document with another file name \<^verbatim>\<open>handle_document\<close> calls neither the
  model nor the PDF extraction, whatever the collaborators answer; and once the file
  lookup \<^verbatim>\<open>get_file\<close> has returned, it returns, replies
  \<^verbatim>\<open>Unsupported document type.\<close> and appends exactly one record to
  \<^verbatim>\<open>document_analysis\<close>, with that text, and none to the other collections.
\<close>

theorem unsupported_document:
  "\<not> endswith (lower (file_name (message_document upd))) ''.pdf'' \<longrightarrow>
     inference_calls (snd (handle_document e upd ctx s)) = inference_calls s \<and>
     extraction_calls (snd (handle_document e upd ctx s)) = extraction_calls s \<and>
     (get_file e (file_id (message_document upd)) = Inr f \<longrightarrow>
        (\<exists>s1. handle_document e upd ctx s = (Inr (), s1) \<and>
           new_replies s s1 = [\<lparr>body = ''Unsupported document type.'', reply_markup = None\<rparr>] \<and>
           document_analysis s1 = document_analysis s @
             [[''chat_id'' \<mapsto> VInt (effective_chat_id upd),
               ''document_url'' \<mapsto> VStr (file_path f),
               ''description'' \<mapsto> VStr ''Unsupported document type.'',
               ''timestamp'' \<mapsto> VDate (utcnow e)]] \<and>
           image_analysis s1 = image_analysis s \<and> chat_history s1 = chat_history s \<and>
           users s1 = users s))"
  by (simp add: new_replies_def handle_document_def document_analysis_text_def handler_defs
        split: sum.splits)

theorem unsupported_document_witness:
  "\<not> endswith (lower (file_name (message_document example_update))) ''.pdf'' \<and>
   get_file absent_env (file_id (message_document example_update)) = Inr example_file \<and>
   inference_calls (snd (handle_document absent_env example_update \<lparr>args = []\<rparr> initial_state)) = [] \<and>
   extraction_calls (snd (handle_document absent_env example_update \<lparr>args = []\<rparr> initial_state)) = [] \<and>
   (\<exists>s1. handle_document absent_env example_update \<lparr>args = []\<rparr> initial_state = (Inr (), s1) \<and>
      new_replies initial_state s1 = [\<lparr>body = ''Unsupported document type.'', reply_markup = None\<rparr>] \<and>
      length (document_analysis s1) = 1 \<and> image_analysis s1 = [] \<and> chat_history s1 = [])"
  using unsupported_document
    [where e = absent_env and upd = example_update and ctx = "\<lparr>args = []\<rparr>"
       and s = initial_state and f = example_file]
  by (simp add: example_defs run_defs)

text \<open>
  Against C5 as written: \<^verbatim>\<open>get_file\<close> is called before the file name is looked at and
  outside any \<^verbatim>\<open>try\<close>. On the document \<^verbatim>\<open>notes.txt\<close>, when the lookup raises,
  \<^verbatim>\<open>handle_document\<close> ends with that exception in the state it started from: no reply
  and no record.
\<close>

theorem unsupported_lookup_failure_counterexample:
  "\<not> endswith (lower (file_name (message_document example_update))) ''.pdf'' \<and>
   handle_document lookup_failing_env example_update \<lparr>args = []\<rparr> initial_state =
     (Inl TelegramError, initial_state) \<and>
   replies initial_state = [] \<and> document_analysis initial_state = []"
  by (simp add: example_defs run_defs)

section \<open>Web search\<close>

text \<open>
  C6. \<^verbatim>\<open>/websearch\<close> without arguments replies with the usage message and calls no
  model. With arguments it calls the text model exactly once, with the prompt that
  wraps the arguments joined by spaces. In both cases, and whatever the model answers,
  no collection is written.
\<close>

theorem web_search_calls:
  "(args ctx = [] \<longrightarrow>
      (\<exists>s1. web_search e upd ctx s = (Inr (), s1) \<and>
         new_replies s s1 =
           [\<lparr>body = ''Please provide a search query after /websearch'', reply_markup = None\<rparr>] \<and>
         inference_calls s1 = inference_calls s)) \<and>
   (args ctx \<noteq> [] \<longrightarrow>
      inference_calls (snd (web_search e upd ctx s)) =
        inference_calls s @
          [TextPrompt (''Search the web for: '' @ join '' '' (args ctx) @
                       '' and summarize the top results.'')]) \<and>
   users (snd (web_search e upd ctx s)) = users s \<and>
   chat_history (snd (web_search e upd ctx s)) = chat_history s \<and>
   image_analysis (snd (web_search e upd ctx s)) = image_analysis s \<and>
   document_analysis (snd (web_search e upd ctx s)) = document_analysis s"
  by (simp add: new_replies_def web_search_def handler_defs split: sum.splits)


theorem web_search_calls_witness:
  "args \<lparr>args = []\<rparr> = [] \<and>
   (\<exists>s1. web_search absent_env example_update \<lparr>args = []\<rparr> initial_state = (Inr (), s1) \<and>
      new_replies initial_state s1 =
        [\<lparr>body = ''Please provide a search query after /websearch'', reply_markup = None\<rparr>] \<and>
      inference_calls s1 = []) \<and>
   args \<lparr>args = [''black'', ''cats'']\<rparr> \<noteq> [] \<and>
   inference_calls (snd (web_search absent_env example_update \<lparr>args = [''black'', ''cats'']\<rparr>
                           initial_state)) =
     [TextPrompt ''Search the web for: black cats and summarize the top results.'']"
  using web_search_calls [where ctx = "\<lparr>args = []\<rparr>" and e = absent_env
      and upd = example_update and s = initial_state]
    web_search_calls [where ctx = "\<lparr>args = [''black'', ''cats'']\<rparr>" and e = absent_env
      and upd = example_update and s = initial_state]
  by (simp add: example_defs run_defs)


section \<open>User profiles\<close>

lemma upsert_matching:
  "flds k = Some v \<Longrightarrow>
   filter (\<lambda>d. d k = Some v) (update_one_upsert k v flds ds) =
     (case filter (\<lambda>d. d k = Some v) ds of
        [] \<Rightarrow> [[k \<mapsto> v] ++ flds]
      | d # rest \<Rightarrow> (d ++ flds) # rest)"
  by (induction ds) (auto simp add: map_add_def)

lemma upsert_others:
  "flds k = Some v \<Longrightarrow> w \<noteq> v \<Longrightarrow>
   filter (\<lambda>d. d k = Some w) (update_one_upsert k v flds ds) = filter (\<lambda>d. d k = Some w) ds"
  by (induction ds) (auto simp add: map_add_def)

lemma map_add_twice: "(m ++ f) ++ f = m ++ f"
  by (rule ext) (simp add: map_add_def split: option.splits)

lemma upsert_idem:
  "flds k = Some v \<Longrightarrow>
   update_one_upsert k v flds (update_one_upsert k v flds ds) = update_one_upsert k v flds ds"
  by (induction ds) (simp_all add: map_add_twice)

lemma upsert_length: "length ds \<le> length (update_one_upsert k v flds ds)"
  by (induction ds) auto

lemma upsert_nth_frame:
  "i < length ds \<Longrightarrow> flds j = None \<Longrightarrow> (update_one_upsert k v flds ds ! i) j = (ds ! i) j"
proof (induction ds arbitrary: i)
  case Nil
  then show ?case by simp
next
  case (Cons d ds)
  then show ?case by (cases i) (auto simp add: map_add_def)
qed

lemma upsert_no_match:
  "filter (\<lambda>d. d k = Some v) ds = [] \<Longrightarrow> update_one_upsert k v flds ds = ds @ [[k \<mapsto> v] ++ flds]"
  by (induction ds) (auto split: if_splits)

text \<open>
  A store in which no chat has two profiles stays so under \<^verbatim>\<open>save_user\<close>; the empty
  store is one.
\<close>

lemma save_user_unique:
  assumes "\<forall>c. length (profiles_of c s) \<le> 1" and "user_data ''chat_id'' = Some (VInt c0)"
  shows "\<forall>c. length (profiles_of c (snd (save_user user_data s))) \<le> 1"
proof
  fix c
  show "length (profiles_of c (snd (save_user user_data s))) \<le> 1"
  proof (cases "c = c0")
    case True
    from assms(1) have "length (profiles_of c0 s) \<le> 1" by blast
    with assms(2) True show ?thesis
      by (cases "filter (\<lambda>d. d ''chat_id'' = Some (VInt c0)) (users s)")
         (simp_all add: save_user_def profiles_of_def upsert_matching)
  next
    case False
    with assms show ?thesis
      by (simp add: save_user_def profiles_of_def upsert_others)
  qed
qed

lemma initial_state_unique: "length (profiles_of c initial_state) = 0"
  by (simp add: profiles_of_def initial_state_def)

text \<open>
  C7. In a store with at most one profile for chat \<open>c\<close> (as every store that only
  \<^verbatim>\<open>save_user\<close> has written to), two \<^verbatim>\<open>/start\<close> commands from chat \<open>c\<close> leave exactly
  one profile for \<open>c\<close>, whose \<^verbatim>\<open>first_name\<close> and \<^verbatim>\<open>username\<close> are those of the second
  command. \<^verbatim>\<open>save_user\<close> is idempotent, leaves one profile for the chat when there was
  none and as many as before otherwise, and leaves the profiles of every other chat
  as they were.
\<close>

theorem start_twice_one_profile:
  "(length (profiles_of c s) \<le> 1 \<and> effective_chat_id upd1 = c \<and> effective_chat_id upd2 = c \<longrightarrow>
      (\<exists>s1 s2 d. start e1 upd1 ctx1 s = (Inr (), s1) \<and> start e2 upd2 ctx2 s1 = (Inr (), s2) \<and>
         profiles_of c s2 = [d] \<and>
         d ''chat_id'' = Some (VInt c) \<and>
         d ''first_name'' = Some (VStr (first_name (effective_user upd2))) \<and>
         d ''username'' = Some (opt_str (username (effective_user upd2))))) \<and>
   (user_data ''chat_id'' = Some (VInt c) \<longrightarrow>
      save_user user_data (snd (save_user user_data s)) = save_user user_data s \<and>
      length (profiles_of c (snd (save_user user_data s))) = max 1 (length (profiles_of c s)) \<and>
      (\<forall>c1. c1 \<noteq> c \<longrightarrow> profiles_of c1 (snd (save_user user_data s)) = profiles_of c1 s))"
proof (intro conjI impI)
  assume a: "length (profiles_of c s) \<le> 1 \<and> effective_chat_id upd1 = c \<and> effective_chat_id upd2 = c"
  then show "\<exists>s1 s2 d. start e1 upd1 ctx1 s = (Inr (), s1) \<and> start e2 upd2 ctx2 s1 = (Inr (), s2) \<and>
         profiles_of c s2 = [d] \<and>
         d ''chat_id'' = Some (VInt c) \<and>
         d ''first_name'' = Some (VStr (first_name (effective_user upd2))) \<and>
         d ''username'' = Some (opt_str (username (effective_user upd2)))"
    by (cases "filter (\<lambda>d. d ''chat_id'' = Some (VInt c)) (users s)")
       (simp_all add: start_def save_user_def reply_text_def profiles_of_def upsert_matching
          map_add_def Let_def)
next
  assume a: "user_data ''chat_id'' = Some (VInt c)"
  show "save_user user_data (snd (save_user user_data s)) = save_user user_data s"
    using a by (simp add: save_user_def upsert_idem)
  show "length (profiles_of c (snd (save_user user_data s))) = max 1 (length (profiles_of c s))"
    using a by (simp add: save_user_def profiles_of_def upsert_matching split: list.splits)
  show "\<forall>c1. c1 \<noteq> c \<longrightarrow> profiles_of c1 (snd (save_user user_data s)) = profiles_of c1 s"
    using a by (simp add: save_user_def profiles_of_def upsert_others)
qed

theorem start_twice_one_profile_witness:
  "length (profiles_of 123 initial_state) \<le> 1 \<and>
   effective_chat_id example_update = 123 \<and>
   effective_chat_id (example_update\<lparr>effective_user := \<lparr>first_name = ''Anna'', username = None\<rparr>\<rparr>) = 123 \<and>
   (\<exists>s1 s2 d. start absent_env example_update \<lparr>args = []\<rparr> initial_state = (Inr (), s1) \<and>
      start absent_env (example_update\<lparr>effective_user := \<lparr>first_name = ''Anna'', username = None\<rparr>\<rparr>)
        \<lparr>args = []\<rparr> s1 = (Inr (), s2) \<and>
      profiles_of 123 s2 = [d] \<and> d ''first_name'' = Some (VStr ''Anna'') \<and>
      d ''username'' = Some VNone) \<and>
   [''chat_id'' \<mapsto> VInt 123, ''phone_number'' \<mapsto> VStr ''+100''] ''chat_id'' = Some (VInt 123) \<and>
   length (profiles_of 123
     (snd (save_user [''chat_id'' \<mapsto> VInt 123, ''phone_number'' \<mapsto> VStr ''+100''] initial_state))) = 1"
  using start_twice_one_profile
    [where c = 123 and s = initial_state and ?upd1.0 = example_update
       and ?upd2.0 = "example_update\<lparr>effective_user := \<lparr>first_name = ''Anna'', username = None\<rparr>\<rparr>"
       and ?e1.0 = absent_env and ?ctx1.0 = "\<lparr>args = []\<rparr>" and ?e2.0 = absent_env
       and ?ctx2.0 = "\<lparr>args = []\<rparr>"
       and user_data = "[''chat_id'' \<mapsto> VInt 123, ''phone_number'' \<mapsto> VStr ''+100'']"]
  by (simp add: example_defs run_defs)

text \<open>
  C10. \<^verbatim>\<open>handle_contact\<close> returns, and in every profile stored before it the fields
  other than \<^verbatim>\<open>chat_id\<close> and \<^verbatim>\<open>phone_number\<close>, in particular \<^verbatim>\<open>first_name\<close> and
  \<^verbatim>\<open>username\<close>, are unchanged. When the chat had no profile the one inserted has the
  two fields \<^verbatim>\<open>chat_id\<close> and \<^verbatim>\<open>phone_number\<close> only; afterwards the chat's first profile
  holds the phone number shared.
\<close>

theorem handle_contact_frame:
  "\<exists>s1. handle_contact e upd ctx s = (Inr (), s1) \<and>
     length (users s) \<le> length (users s1) \<and>
     (\<forall>i < length (users s).
        (users s1 ! i) ''first_name'' = (users s ! i) ''first_name'' \<and>
        (users s1 ! i) ''username'' = (users s ! i) ''username'' \<and>
        (\<forall>k. k \<noteq> ''chat_id'' \<and> k \<noteq> ''phone_number'' \<longrightarrow> (users s1 ! i) k = (users s ! i) k)) \<and>
     (profiles_of (effective_chat_id upd) s = [] \<longrightarrow>
        users s1 = users s @ [[''chat_id'' \<mapsto> VInt (effective_chat_id upd),
                               ''phone_number'' \<mapsto> VStr (contact_phone_number upd)]]) \<and>
     (profiles_of (effective_chat_id upd) s1 \<noteq> [] \<and>
          hd (profiles_of (effective_chat_id upd) s1) ''phone_number'' =
            Some (VStr (contact_phone_number upd)))"
  by (auto simp add: handle_contact_def save_user_def reply_text_def profiles_of_def Let_def
        upsert_length upsert_nth_frame upsert_no_match upsert_matching map_add_def
        split: list.splits)


theorem handle_contact_frame_witness:
  "(0::nat) < length (users ann_state) \<and>
   (\<exists>s1. handle_contact absent_env example_update \<lparr>args = []\<rparr> ann_state = (Inr (), s1) \<and>
      (users s1 ! 0) ''first_name'' = Some (VStr ''Ann'') \<and>
      (users s1 ! 0) ''username'' = Some (VStr ''ann'')) \<and>
   profiles_of (effective_chat_id example_update) initial_state = [] \<and>
   (\<exists>s1. handle_contact absent_env example_update \<lparr>args = []\<rparr> initial_state = (Inr (), s1) \<and>
      users s1 = [[''chat_id'' \<mapsto> VInt 123, ''phone_number'' \<mapsto> VStr ''+100'']])"
  using handle_contact_frame [where e = absent_env and upd = example_update
      and ctx = "\<lparr>args = []\<rparr>" and s = ann_state]
    handle_contact_frame [where e = absent_env and upd = example_update
      and ctx = "\<lparr>args = []\<rparr>" and s = initial_state]
  by (simp add: example_defs run_defs)


section \<open>Absent and empty answers of the model\<close>

text \<open>
  C8, as the code has it. The handlers test the response object, not its text:
  \<^verbatim>\<open>response.text if response else fallback\<close>. When the model's answer is absent
  (\<^verbatim>\<open>None\<close>) the handler stores and replies its fallback string; when the answer is
  present with an empty text the handler stores and replies the empty string.
\<close>

theorem absent_and_empty_results:
  "(generate_content e (message_text upd) = Inr r \<longrightarrow>
      (\<exists>s1 d m. handle_message e upd ctx s = (Inr (), s1) \<and>
         chat_history s1 = chat_history s @ [d] \<and> new_replies s s1 = [m] \<and>
         (r = None \<longrightarrow>
            d ''bot_response'' = Some (VStr ''I couldn't process that.'') \<and>
            body m = ''I couldn't process that.'') \<and>
         (r = Some (Response []) \<longrightarrow>
            d ''bot_response'' = Some (VStr []) \<and> body m = []))) \<and>
   (message_photo upd \<noteq> [] \<and> get_file e (last (message_photo upd)) = Inr f \<and>
    download_as_bytearray f = Inr img \<and> vision_generate_content e img = Inr r \<longrightarrow>
      (\<exists>s1 d m. handle_photo e upd ctx s = (Inr (), s1) \<and>
         image_analysis s1 = image_analysis s @ [d] \<and> new_replies s s1 = [m] \<and>
         (r = None \<longrightarrow>
            d ''description'' = Some (VStr ''Could not analyze the image.'') \<and>
            body m = ''Could not analyze the image.'') \<and>
         (r = Some (Response []) \<longrightarrow>
            d ''description'' = Some (VStr []) \<and> body m = []))) \<and>
   (get_file e (file_id (message_document upd)) = Inr f \<and>
    endswith (lower (file_name (message_document upd))) ''.pdf'' \<and>
    download_as_bytearray f = Inr pdf \<and> extract_text_from_pdf e pdf = Inr t \<and> t \<noteq> [] \<and>
    generate_content e t = Inr r \<longrightarrow>
      (\<exists>s1 d m. handle_document e upd ctx s = (Inr (), s1) \<and>
         document_analysis s1 = document_analysis s @ [d] \<and> new_replies s s1 = [m] \<and>
         (r = None \<longrightarrow>
            d ''description'' = Some (VStr ''Could not summarize the document.'') \<and>
            body m = ''Could not summarize the document.'') \<and>
         (r = Some (Response []) \<longrightarrow>
            d ''description'' = Some (VStr []) \<and> body m = [])))"
  by (simp add: handle_message_def handle_photo_def handle_photo_try_def handle_document_def
        document_analysis_text_def handler_defs text_or_def new_replies_def)

theorem absent_and_empty_results_witness:
  "generate_content absent_env (message_text example_update) = Inr None \<and>
   (\<exists>s1 d m. handle_message absent_env example_update \<lparr>args = []\<rparr> initial_state = (Inr (), s1) \<and>
      chat_history s1 = [d] \<and> new_replies initial_state s1 = [m] \<and>
      d ''bot_response'' = Some (VStr ''I couldn't process that.'') \<and>
      body m = ''I couldn't process that.'') \<and>
   generate_content empty_text_env (message_text example_update) = Inr (Some (Response [])) \<and>
   (\<exists>s1 d m. handle_message empty_text_env example_update \<lparr>args = []\<rparr> initial_state = (Inr (), s1) \<and>
      chat_history s1 = [d] \<and> new_replies initial_state s1 = [m] \<and>
      d ''bot_response'' = Some (VStr []) \<and> body m = []) \<and>
   message_photo example_update \<noteq> [] \<and>
   get_file empty_text_env (last (message_photo example_update)) = Inr example_file \<and>
   download_as_bytearray example_file = Inr [37, 80] \<and>
   vision_generate_content empty_text_env [37, 80] = Inr (Some (Response [])) \<and>
   (\<exists>s1 d m. handle_photo empty_text_env example_update \<lparr>args = []\<rparr> initial_state = (Inr (), s1) \<and>
      image_analysis s1 = [d] \<and> new_replies initial_state s1 = [m] \<and>
      d ''description'' = Some (VStr []) \<and> body m = []) \<and>
   get_file empty_text_env (file_id (message_document pdf_update)) = Inr example_file \<and>
   endswith (lower (file_name (message_document pdf_update))) ''.pdf'' \<and>
   extract_text_from_pdf empty_text_env [37, 80] = Inr ''page one'' \<and>
   generate_content empty_text_env ''page one'' = Inr (Some (Response [])) \<and>
   (\<exists>s1 d m. handle_document empty_text_env pdf_update \<lparr>args = []\<rparr> initial_state = (Inr (), s1) \<and>
      document_analysis s1 = [d] \<and> new_replies initial_state s1 = [m] \<and>
      d ''description'' = Some (VStr []) \<and> body m = [])"
  using absent_and_empty_results
    [where e = absent_env and upd = example_update and ctx = "\<lparr>args = []\<rparr>"
       and s = initial_state and r = None and f = example_file and img = "[37, 80]"
       and pdf = "[37, 80]" and t = "''page one''"]
    absent_and_empty_results
    [where e = empty_text_env and upd = example_update and ctx = "\<lparr>args = []\<rparr>"
       and s = initial_state and r = "Some (Response [])" and f = example_file
       and img = "[37, 80]" and pdf = "[37, 80]" and t = "''page one''"]
    absent_and_empty_results
    [where e = empty_text_env and upd = pdf_update and ctx = "\<lparr>args = []\<rparr>"
       and s = initial_state and r = "Some (Response [])" and f = example_file
       and img = "[37, 80]" and pdf = "[37, 80]" and t = "''page one''"]
  by (simp add: example_defs run_defs)

text \<open>
  Against C8 as written: on the text message \<open>''Hello''\<close>, an absent answer stores and
  replies \<^verbatim>\<open>I couldn't process that.\<close>, an answer with empty text stores and replies
  the empty string.
\<close>

theorem absent_versus_empty_counterexample:
  "chat_history (snd (handle_message absent_env example_update \<lparr>args = []\<rparr> initial_state)) =
     [[''chat_id'' \<mapsto> VInt 123, ''user_message'' \<mapsto> VStr ''Hello'',
       ''bot_response'' \<mapsto> VStr ''I couldn't process that.'', ''timestamp'' \<mapsto> VDate 0]] \<and>
   replies (snd (handle_message absent_env example_update \<lparr>args = []\<rparr> initial_state)) =
     [\<lparr>body = ''I couldn't process that.'', reply_markup = None\<rparr>] \<and>
   chat_history (snd (handle_message empty_text_env example_update \<lparr>args = []\<rparr> initial_state)) =
     [[''chat_id'' \<mapsto> VInt 123, ''user_message'' \<mapsto> VStr ''Hello'',
       ''bot_response'' \<mapsto> VStr [], ''timestamp'' \<mapsto> VDate 0]] \<and>
   replies (snd (handle_message empty_text_env example_update \<lparr>args = []\<rparr> initial_state)) =
     [\<lparr>body = [], reply_markup = None\<rparr>] \<and>
   replies (snd (handle_message absent_env example_update \<lparr>args = []\<rparr> initial_state)) \<noteq>
   replies (snd (handle_message empty_text_env example_update \<lparr>args = []\<rparr> initial_state))"
  by (simp add: example_defs handle_message_def handler_defs text_or_def)

section \<open>Exceptions of the collaborators\<close>

text \<open>
  C2 does not hold of the code. Only \<^verbatim>\<open>handle_photo\<close> has a \<^verbatim>\<open>try\<close> around its
  download and its model call. When the model raises, \<^verbatim>\<open>handle_message\<close> and
  \<^verbatim>\<open>web_search\<close> end with that exception, no reply sent and no record stored; when
  the download raises, so does \<^verbatim>\<open>handle_document\<close>; \<^verbatim>\<open>handle_photo\<close>, with the same
  collaborators, returns and replies with its error message.
\<close>

theorem failures_propagate:
  "fst (handle_message failing_env example_update \<lparr>args = []\<rparr> initial_state) = Inl InferenceError \<and>
   replies (snd (handle_message failing_env example_update \<lparr>args = []\<rparr> initial_state)) = [] \<and>
   chat_history (snd (handle_message failing_env example_update \<lparr>args = []\<rparr> initial_state)) = [] \<and>
   fst (handle_document failing_env pdf_update \<lparr>args = []\<rparr> initial_state) = Inl TelegramError \<and>
   replies (snd (handle_document failing_env pdf_update \<lparr>args = []\<rparr> initial_state)) = [] \<and>
   fst (web_search failing_env example_update \<lparr>args = [''cats'']\<rparr> initial_state)
     = Inl InferenceError \<and>
   replies (snd (web_search failing_env example_update \<lparr>args = [''cats'']\<rparr> initial_state)) = [] \<and>
   fst (handle_photo failing_env example_update \<lparr>args = []\<rparr> initial_state) = Inr () \<and>
   replies (snd (handle_photo failing_env example_update \<lparr>args = []\<rparr> initial_state)) =
     [\<lparr>body = ''There was an error analyzing the image. Please try again later.'',
       reply_markup = None\<rparr>]"
  by (simp add: example_defs run_defs)


end
